theory Spec2Isabelle
  imports Main "HOL-Library.Multiset"
begin

section \<open>go\_mailer: the data model of mailer.go\<close>

text \<open>
  Go strings are byte sequences, and so is \<^typ>\<open>string\<close>.  A pointer that \<open>Send\<close> tests
  against \<open>nil\<close> (\<open>AuthConfig\<close>, \<open>Crammd5Auth\<close>, \<open>PlainAuth\<close>, \<open>TlsConfig\<close>) is an
  \<^typ>\<open>'a option\<close>; a pointer that \<open>Send\<close> dereferences without a test (\<open>params\<close>,
  \<open>Header\<close>, the elements of \<open>Body\<close>) stands for the struct it points to.
\<close>

record Header =
  From :: string
  MimeVersion :: string
  Subject :: string
  To :: string

record CRAMMD5Auth =
  UserName :: string
  Secret :: string

record PlainAuth =
  UserName :: string
  Password :: string
  Host :: string

record AuthConfig =
  Crammd5Auth :: "CRAMMD5Auth option"
  PlainAuth :: "PlainAuth option"

record Body =
  ContentType :: string
  Charset :: string
  Data :: string

text \<open>\<open>tls.Config\<close>, as far as this package fills it in.\<close>

record tls_Config =
  ServerName :: string
  Certificates :: "(string \<times> string) list"

record Params =
  AuthConfig :: "AuthConfig option"
  Body :: "Body list"
  Header :: Header
  SmtpServerHost :: string
  SmtpServerPort :: int
  TlsConfig :: "tls_Config option"

subsection \<open>Constructors\<close>

definition GenCRAMMD5Auth :: "string \<Rightarrow> string \<Rightarrow> AuthConfig" where
  "GenCRAMMD5Auth userName secret =
     (let a = \<lparr>CRAMMD5Auth.UserName = userName, Secret = secret\<rparr>
      in \<lparr>Crammd5Auth = Some a, PlainAuth = None\<rparr>)"

definition GenPlainAuth :: "string \<Rightarrow> string \<Rightarrow> string \<Rightarrow> AuthConfig" where
  "GenPlainAuth userName password host =
     (let a = \<lparr>PlainAuth.UserName = userName, Password = password, Host = host\<rparr>
      in \<lparr>Crammd5Auth = None, PlainAuth = Some a\<rparr>)"

definition GenTlsConfig :: "string \<Rightarrow> tls_Config" where
  "GenTlsConfig serverName = \<lparr>ServerName = serverName, Certificates = []\<rparr>"

definition GenHeader :: "string \<Rightarrow> string \<Rightarrow> string \<Rightarrow> string \<Rightarrow> Header" where
  "GenHeader from to subject mimeVersion =
     \<lparr>From = from, MimeVersion = mimeVersion, Subject = subject, To = to\<rparr>"

definition GenParams ::
  "string \<Rightarrow> int \<Rightarrow> Header \<Rightarrow> Body list \<Rightarrow> AuthConfig option \<Rightarrow> tls_Config option \<Rightarrow> Params" where
  "GenParams smtpServerHost smtpServerPort header body authConfig tlsConfig =
     \<lparr>AuthConfig = authConfig, Body = body, Header = header,
      SmtpServerHost = smtpServerHost, SmtpServerPort = smtpServerPort,
      TlsConfig = tlsConfig\<rparr>"

section \<open>The world outside the package\<close>

text \<open>
  \<open>Send\<close> talks to three things it does not own: the Go runtime, which picks the order
  in which \<open>range\<close> visits a map; the generator \<open>rand.New(rand.NewSource(time.Now().UnixNano()))\<close>;
  and the network behind \<open>crypto/tls\<close> and \<open>net/smtp\<close>.  Each is a field of the record
  \<open>env\<close>, and each call made to the network is written to a trace.
\<close>

datatype auth =
  CRAMMD5 string string
| PLAIN string string string string

datatype call =
  tls_Dial string string tls_Config
| smtp_NewClient string
| smtp_Dial string
| Client_Auth auth
| Client_Mail string
| Client_Rcpt string
| Client_Data
| Writer_Write string
| Writer_Close
| Client_Quit
| Client_Close

record env =
  range_order :: "string list"
  draws :: "nat \<Rightarrow> nat"
  respond :: "call \<Rightarrow> string option"

text \<open>
  \<open>range_order\<close> is the order in which \<open>range headers\<close> yields the keys;
  the Go specification leaves it open, and all it promises is that every key comes once.
\<close>

definition range_ok :: "string list \<Rightarrow> (string \<rightharpoonup> string) \<Rightarrow> bool" where
  "range_ok ks m \<longleftrightarrow> distinct ks \<and> set ks = dom m"

text \<open>
  \<open>draws i\<close> is the raw value behind the \<open>i\<close>-th call of \<open>r.Intn\<close>; \<open>Intn n\<close> answers
  in \<open>[0, n)\<close>, here by reducing the raw value.
\<close>

definition Intn :: "(nat \<Rightarrow> nat) \<Rightarrow> nat \<Rightarrow> nat \<Rightarrow> nat" where
  "Intn r i n = r i mod n"

text \<open>
  \<open>respond c\<close> is what the call \<open>c\<close> comes back with: \<open>None\<close> for a nil error,
  \<open>Some m\<close> for an error whose \<open>Error()\<close> is \<open>m\<close>.
\<close>

abbreviation CRLF :: string where
  "CRLF \<equiv> [CHR 0x0D, CHR 0x0A]"

abbreviation DQUOTE :: string where
  "DQUOTE \<equiv> [CHR 0x22]"

section \<open>Send: the message\<close>

definition genBoundary :: "(nat \<Rightarrow> nat) \<Rightarrow> string" where
  "genBoundary r =
     (let charset = ''1234567890abcdefghijklmnopqrstuvwxyz''
      in map (\<lambda>i. charset ! Intn r i (length charset)) [0..<32])"

definition headers_of :: "Header \<Rightarrow> (string \<rightharpoonup> string)" where
  "headers_of h =
     (((Map.empty(''From'' \<mapsto> From h))(''To'' \<mapsto> To h))(''Subject'' \<mapsto> Subject h))
       (''MIME-version'' \<mapsto> MimeVersion h)"

text \<open>The loop \<open>for k,v := range headers\<close>, visiting the keys in the order \<open>ks\<close>.\<close>

definition range_headers :: "string list \<Rightarrow> (string \<rightharpoonup> string) \<Rightarrow> string \<Rightarrow> string" where
  "range_headers ks headers body =
     foldl (\<lambda>body k. case headers k of
                       None \<Rightarrow> body
                     | Some v \<Rightarrow> body @ k @ '': '' @ v @ CRLF) body ks"

text \<open>One turn of the loop \<open>for _, b := range params.Body\<close>.\<close>

definition append_part :: "nat \<Rightarrow> string \<Rightarrow> string \<Rightarrow> Body \<Rightarrow> string" where
  "append_part n boundary body b =
     (if n > 1
      then body @ ''--'' @ boundary @ CRLF @ ''Content-Type: '' @ ContentType b
             @ ''; charset='' @ DQUOTE @ Charset b @ DQUOTE @ CRLF @ Data b @ CRLF
      else body @ ''Content-Type: '' @ ContentType b
             @ ''; charset='' @ DQUOTE @ Charset b @ DQUOTE @ CRLF @ Data b @ CRLF)"

text \<open>
  Lines 252 to 276 of \<open>Send\<close>: the bytes later handed to \<open>wc.Write\<close>.  The boundary
  is the empty string (Go's zero value) unless there are two bodies or more.
\<close>

definition assemble :: "env \<Rightarrow> Params \<Rightarrow> string" where
  "assemble e params =
     (let headers = headers_of (Header params);
          body = range_headers (range_order e) headers [];
          n = length (Body params);
          boundary = (if n > 1 then genBoundary (draws e) else []);
          body = (if n > 1
                  then body @ ''Content-Type: multipart/alternative; boundary='' @ DQUOTE
                         @ boundary @ DQUOTE @ CRLF
                  else body);
          body = foldl (append_part n boundary) body (Body params);
          body = (if n > 1 then body @ ''--'' @ boundary @ ''--'' @ CRLF else body)
      in body)"

section \<open>Send: the session\<close>

text \<open>\<open>strconv.Itoa\<close>: the decimal digits of an integer.\<close>

fun decimal :: "nat \<Rightarrow> string" where
  "decimal n =
     (if n < 10 then [''0123456789'' ! n]
      else decimal (n div 10) @ [''0123456789'' ! (n mod 10)])"

declare decimal.simps [simp del]

definition Itoa :: "int \<Rightarrow> string" where
  "Itoa i = (if i < 0 then ''-'' @ decimal (nat (- i)) else decimal (nat i))"

text \<open>
  \<open>attempt e c msg rest\<close> makes the call \<open>c\<close>.  If it comes back with an error,
  the function returns \<open>errors.New(msg + err.Error())\<close> at once; otherwise it goes on
  with \<open>rest\<close>.  The result pairs the returned error (\<open>None\<close> for nil) with the calls made.
\<close>

definition attempt ::
  "env \<Rightarrow> call \<Rightarrow> string \<Rightarrow> string option \<times> call list \<Rightarrow> string option \<times> call list" where
  "attempt e c msg rest =
     (case respond e c of
        Some err \<Rightarrow> (Some (msg @ err), [c])
      | None \<Rightarrow> (fst rest, c # snd rest))"

text \<open>\<open>defer c.Close()\<close>: the client is closed on every way out of what follows.\<close>

definition deferred_Close :: "string option \<times> call list \<Rightarrow> string option \<times> call list" where
  "deferred_Close rest = (fst rest, snd rest @ [Client_Close])"

definition mail_commands :: "env \<Rightarrow> Params \<Rightarrow> string \<Rightarrow> string option \<times> call list" where
  "mail_commands e params body =
     attempt e (Client_Mail (From (Header params))) ''(*Client) Mail() error. err=''
    (attempt e (Client_Rcpt (To (Header params))) ''(*Client) Rcpt() error. err=''
    (attempt e Client_Data ''(*Client) Data() error. err=''
    (attempt e (Writer_Write body) ''(io.WriteCloser) Write() error. err=''
    (attempt e Writer_Close ''(*Client) Quit() error. err=''
    (attempt e Client_Quit ''(*Client) Quit() error. err=''
    (None, []))))))"

definition authentication ::
  "env \<Rightarrow> Params \<Rightarrow> string option \<times> call list \<Rightarrow> string option \<times> call list" where
  "authentication e params rest =
     (case AuthConfig params of
        None \<Rightarrow> rest
      | Some ac \<Rightarrow>
          (let plain =
                 (case PlainAuth ac of
                    None \<Rightarrow> rest
                  | Some a \<Rightarrow>
                      attempt e (Client_Auth (PLAIN [] (PlainAuth.UserName a) (Password a) (Host a)))
                        ''(*Client) Auth() error. err='' rest)
           in case Crammd5Auth ac of
                None \<Rightarrow> plain
              | Some a \<Rightarrow>
                  attempt e (Client_Auth (CRAMMD5 (CRAMMD5Auth.UserName a) (Secret a)))
                    ''(*Client) Auth() error. err='' plain))"

definition Send :: "env \<Rightarrow> Params \<Rightarrow> string option \<times> call list" where
  "Send e params =
     (let body = assemble e params;
          addr = SmtpServerHost params @ '':'' @ Itoa (SmtpServerPort params);
          session = deferred_Close (authentication e params (mail_commands e params body))
      in case TlsConfig params of
           Some cfg \<Rightarrow>
             attempt e (tls_Dial ''tcp'' addr cfg) ''tls.Dial() error. err=''
            (attempt e (smtp_NewClient (SmtpServerHost params)) ''smtp.NewClient() error. err=''
             session)
         | None \<Rightarrow>
             attempt e (smtp_Dial addr) ''smtp.Dial() error. err='' session)"

section \<open>Bodies from template files\<close>

text \<open>
  A Go call either returns or panics.  An index expression \<open>xs[i]\<close> panics with
  ``index out of range [i] with length n'' when \<open>i\<close> is not below the length \<open>n\<close>.
\<close>

datatype panic = index_out_of_range nat nat

datatype 'a outcome = Panics panic | Returns 'a

definition index :: "'a list \<Rightarrow> nat \<Rightarrow> 'a outcome" where
  "index xs i = (if i < length xs then Returns (xs ! i) else Panics (index_out_of_range i (length xs)))"

text \<open>
  The packages \<open>path\<close> and \<open>html/template\<close> are not part of this repository.
  \<open>ParseFiles name files\<close> stands for
  \<open>template.New(name).Funcs(f).ParseFiles(files...)\<close> and \<open>Execute t params\<close> for
  \<open>t.Execute(buffer, params)\<close> followed by \<open>buffer.String()\<close>; both answer with
  \<open>Inl\<close> of the error's text or \<open>Inr\<close> of the value.
\<close>

record 't templating =
  path_Base :: "string \<Rightarrow> string"
  ParseFiles :: "string \<Rightarrow> string list \<Rightarrow> string + 't"
  Execute :: "'t \<Rightarrow> (string \<rightharpoonup> string) \<Rightarrow> string + string"

text \<open>
  A Go result \<open>(v, err)\<close> is \<open>Inl\<close> of the error's text when \<open>err\<close> is not nil, and
  \<open>Inr v\<close> otherwise.
\<close>

definition GenBodyFromFiles ::
  "'t templating \<Rightarrow> string \<Rightarrow> string \<Rightarrow> string list \<Rightarrow> (string \<rightharpoonup> string)
     \<Rightarrow> (string + Body) outcome" where
  "GenBodyFromFiles T contentType charset fileNames params =
     (case index fileNames 0 of
        Panics x \<Rightarrow> Panics x
      | Returns first \<Rightarrow>
          (case ParseFiles T (path_Base T first) fileNames of
             Inl err \<Rightarrow> Returns (Inl err)
           | Inr t \<Rightarrow>
               (case Execute T t params of
                  Inl err \<Rightarrow> Returns (Inl err)
                | Inr buffer \<Rightarrow>
                    Returns (Inr \<lparr>ContentType = contentType, Charset = charset, Data = buffer\<rparr>))))"

subsection \<open>The package templates\<close>

definition HtmlFromFiles ::
  "'t templating \<Rightarrow> string list \<Rightarrow> (string \<rightharpoonup> string) \<Rightarrow> (string + string) outcome" where
  "HtmlFromFiles T fileNames params =
     (case index fileNames 0 of
        Panics x \<Rightarrow> Panics x
      | Returns first \<Rightarrow>
          (case ParseFiles T (path_Base T first) fileNames of
             Inl err \<Rightarrow> Returns (Inl err)
           | Inr t \<Rightarrow>
               (case Execute T t params of
                  Inl err \<Rightarrow> Returns (Inl err)
                | Inr buffer \<Rightarrow> Returns (Inr buffer))))"

definition TextFromFiles ::
  "'t templating \<Rightarrow> string list \<Rightarrow> (string \<rightharpoonup> string) \<Rightarrow> (string + string) outcome" where
  "TextFromFiles T fileNames params =
     (case index fileNames 0 of
        Panics x \<Rightarrow> Panics x
      | Returns first \<Rightarrow>
          (case ParseFiles T (path_Base T first) fileNames of
             Inl err \<Rightarrow> Returns (Inl err)
           | Inr t \<Rightarrow>
               (case Execute T t params of
                  Inl err \<Rightarrow> Returns (Inl err)
                | Inr buffer \<Rightarrow> Returns (Inr buffer))))"

section \<open>Notions the statements use\<close>

text \<open>The header line \<open>"<Name>: <value>\r\n"\<close> of the field called \<open>k\<close>.\<close>

definition header_line :: "Header \<Rightarrow> string \<Rightarrow> string" where
  "header_line h k = k @ '': '' @ the (headers_of h k) @ CRLF"

text \<open>The Content-Type line of one body, its data and the closing line break.\<close>

definition entity :: "Body \<Rightarrow> string" where
  "entity b = ''Content-Type: '' @ ContentType b @ ''; charset='' @ DQUOTE @ Charset b @ DQUOTE
               @ CRLF @ Data b @ CRLF"

text \<open>One part of a multipart message: the line \<open>--boundary\<close>, then the entity.\<close>

definition part :: "string \<Rightarrow> Body \<Rightarrow> string" where
  "part boundary b = ''--'' @ boundary @ CRLF @ entity b"

text \<open>The calls that establish the connection, and the address they go to.\<close>

definition address :: "Params \<Rightarrow> string" where
  "address p = SmtpServerHost p @ '':'' @ Itoa (SmtpServerPort p)"

definition dial_calls :: "Params \<Rightarrow> call list" where
  "dial_calls p =
     (case TlsConfig p of
        Some cfg \<Rightarrow> [tls_Dial ''tcp'' (address p) cfg, smtp_NewClient (SmtpServerHost p)]
      | None \<Rightarrow> [smtp_Dial (address p)])"

text \<open>
  The authentications of an AuthConfig in the order the specification gives: CRAM-MD5 if
  that variant is populated, then plain if that variant is populated.
\<close>

definition auth_calls :: "AuthConfig option \<Rightarrow> call list" where
  "auth_calls cfg =
     (case cfg of
        None \<Rightarrow> []
      | Some ac \<Rightarrow>
          (case Crammd5Auth ac of
             None \<Rightarrow> []
           | Some a \<Rightarrow> [Client_Auth (CRAMMD5 (CRAMMD5Auth.UserName a) (Secret a))])
          @ (case PlainAuth ac of
               None \<Rightarrow> []
             | Some a \<Rightarrow> [Client_Auth (PLAIN [] (PlainAuth.UserName a) (Password a) (Host a))]))"

text \<open>The commands of the mail transaction, for the message \<open>msg\<close>.\<close>

definition transaction_calls :: "Params \<Rightarrow> string \<Rightarrow> call list" where
  "transaction_calls p msg =
     [Client_Mail (From (Header p)), Client_Rcpt (To (Header p)), Client_Data,
      Writer_Write msg, Writer_Close, Client_Quit]"

text \<open>The three calls that establish the connection, and the command \<open>Mail\<close>.\<close>

fun is_dial :: "call \<Rightarrow> bool" where
  "is_dial (tls_Dial _ _ _) = True"
| "is_dial (smtp_NewClient _) = True"
| "is_dial (smtp_Dial _) = True"
| "is_dial _ = False"

fun is_Mail :: "call \<Rightarrow> bool" where
  "is_Mail (Client_Mail _) = True"
| "is_Mail _ = False"

subsection \<open>Inputs for the examples\<close>

definition accepting :: "call \<Rightarrow> string option" where
  "accepting c = None"

definition example_header :: Header where
  "example_header = GenHeader ''a@x.com'' ''b@y.com'' ''Hi'' ''1.0''"

definition text_body :: Body where
  "text_body = \<lparr>ContentType = ''text/plain'', Charset = ''UTF-8'', Data = ''Hello''\<rparr>"

definition html_body :: Body where
  "html_body = \<lparr>ContentType = ''text/html'', Charset = ''UTF-8'', Data = ''<b>Hi</b>''\<rparr>"

definition example_params :: "Body list \<Rightarrow> AuthConfig option \<Rightarrow> tls_Config option \<Rightarrow> Params" where
  "example_params bodies authConfig tlsConfig =
     GenParams ''example.com'' 465 example_header bodies authConfig tlsConfig"

definition example_env :: "string list \<Rightarrow> (call \<Rightarrow> string option) \<Rightarrow> env" where
  "example_env ks r = \<lparr>range_order = ks, draws = (\<lambda>i. 7 * i), respond = r\<rparr>"

section \<open>Constructors of AuthConfig\<close>

text \<open>
  C10.  Each public constructor of an AuthConfig fills in exactly one variant:
  GenCRAMMD5Auth sets Crammd5Auth (to the given user name and secret) and leaves PlainAuth
  nil; GenPlainAuth sets PlainAuth (to the given user name, password and host) and leaves
  Crammd5Auth nil.  No constructor returns an AuthConfig with both variants set.
\<close>

theorem constructors_one_variant:
  "Crammd5Auth (GenCRAMMD5Auth u s) = Some \<lparr>CRAMMD5Auth.UserName = u, Secret = s\<rparr>
   \<and> PlainAuth (GenCRAMMD5Auth u s) = None
   \<and> PlainAuth (GenPlainAuth u pw h) = Some \<lparr>PlainAuth.UserName = u, Password = pw, Host = h\<rparr>
   \<and> Crammd5Auth (GenPlainAuth u pw h) = None"
  by (simp add: GenCRAMMD5Auth_def GenPlainAuth_def)

end
